theory Spec2Isabelle
  imports Main
begin

section \<open>ijq: an interactive front end for jq (main.go)\<close>

text \<open>
  The program is one Go file built on the Bubble Tea runtime and the Bubbles widgets.
  The theory embeds the functions of \<^verbatim>\<open>main.go\<close>: \<^verbatim>\<open>jq\<close>, \<^verbatim>\<open>jqFilter\<close>,
  \<^verbatim>\<open>newModel\<close>, \<^verbatim>\<open>Update\<close>, \<^verbatim>\<open>readFile\<close>, \<^verbatim>\<open>getContent\<close> and \<^verbatim>\<open>main\<close>.
  A Go \<^verbatim>\<open>string\<close> is a sequence of bytes, here a \<^typ>\<open>string\<close> (a list of 8-bit
  characters). What the operating system, the engine process and the widget library
  do is not in the repository; it is passed to the functions as a parameter, so that
  every theorem holds for whatever they do.
\<close>

subsection \<open>Standard library: \<^verbatim>\<open>cmp.Or\<close> and \<^verbatim>\<open>strings.TrimSpace\<close>\<close>

text \<open>\<^verbatim>\<open>cmp.Or(vals...)\<close>: the first argument that is not the zero value (for a string,
  not empty), and the zero value when there is none.\<close>

fun cmp_Or :: "string list \<Rightarrow> string" where
  "cmp_Or [] = []"
| "cmp_Or (v # vals) = (if v \<noteq> [] then v else cmp_Or vals)"

text \<open>The six ASCII bytes that are white space (\<^verbatim>\<open>\t \n \v \f \r\<close> and the blank).\<close>

definition asciiSpace :: "char list" where
  "asciiSpace = [CHR 0x09, CHR 0x0A, CHR 0x0B, CHR 0x0C, CHR 0x0D, CHR 0x20]"

text \<open>
  The UTF-8 encodings of the code points for which \<^verbatim>\<open>unicode.IsSpace\<close> holds: the
  ASCII ones, U+0085, U+00A0, U+1680, U+2000 to U+200A, U+2028, U+2029, U+202F, U+205F
  and U+3000. Go decodes a string one code point at a time and accepts only the
  shortest encoding of each, so a string starts (ends) with a white-space code point
  exactly when it starts (ends) with one of these byte sequences.
\<close>

definition White_Space :: "string list" where
  "White_Space =
     map (\<lambda>c. [c]) asciiSpace @
     [[CHR 0xC2, CHR 0x85], [CHR 0xC2, CHR 0xA0], [CHR 0xE1, CHR 0x9A, CHR 0x80]] @
     map (\<lambda>c. [CHR 0xE2, CHR 0x80, c])
       [CHR 0x80, CHR 0x81, CHR 0x82, CHR 0x83, CHR 0x84, CHR 0x85, CHR 0x86, CHR 0x87,
        CHR 0x88, CHR 0x89, CHR 0x8A, CHR 0xA8, CHR 0xA9, CHR 0xAF] @
     [[CHR 0xE2, CHR 0x81, CHR 0x9F], [CHR 0xE3, CHR 0x80, CHR 0x80]]"

text \<open>Drop, from the front of the string, every leading occurrence of a sequence of
  the table.\<close>

fun trimLeading :: "string list \<Rightarrow> string \<Rightarrow> string" where
  "trimLeading encs [] = []"
| "trimLeading encs (c # cs) =
     (case find (\<lambda>e. e \<noteq> [] \<and> take (length e) (c # cs) = e) encs of
        None \<Rightarrow> c # cs
      | Some e \<Rightarrow> trimLeading encs (drop (length e - 1) cs))"

definition TrimLeft :: "string \<Rightarrow> string" where
  "TrimLeft s = trimLeading White_Space s"

definition TrimRight :: "string \<Rightarrow> string" where
  "TrimRight s = rev (trimLeading (map rev White_Space) (rev s))"

text \<open>\<^verbatim>\<open>strings.TrimSpace(s)\<close>: \<^verbatim>\<open>s\<close> without its leading and trailing white space, as
  Unicode defines it. Go trims the front first and the back of what is left.\<close>

definition TrimSpace :: "string \<Rightarrow> string" where
  "TrimSpace s = TrimRight (TrimLeft s)"


subsection \<open>Running the engine: \<^verbatim>\<open>os/exec\<close>\<close>

text \<open>
  \<^verbatim>\<open>exec.Command(name, arg...)\<close> with its \<^verbatim>\<open>Stdin\<close>. \<^verbatim>\<open>Args\<close> holds the command name
  first, as Go builds it.
\<close>

record Cmd =
  Path :: string
  Args :: "string list"
  Stdin :: string

definition exec_Command :: "string \<Rightarrow> string list \<Rightarrow> Cmd" where
  "exec_Command name arg = \<lparr>Path = name, Args = name # arg, Stdin = []\<rparr>"

text \<open>
  What a process does once started: the chunks it writes, in the order of the writes,
  each to its normal output or to its diagnostic output, and its exit status. A
  command can also fail to start, and then writes nothing.
\<close>

datatype stream = Stdout | Stderr

datatype run_outcome =
    StartFailed
  | Exited "(stream \<times> string) list" int

text \<open>The text a process wrote to one of its two streams.\<close>

definition written :: "stream \<Rightarrow> run_outcome \<Rightarrow> string" where
  "written fd r =
     (case r of
        StartFailed \<Rightarrow> []
      | Exited ws st \<Rightarrow> concat (map snd (filter (\<lambda>w. fst w = fd) ws)))"

text \<open>
  \<^verbatim>\<open>cmd.Run()\<close> with \<^verbatim>\<open>cmd.Stdout\<close> and \<^verbatim>\<open>cmd.Stderr\<close> set to the same
  \<^verbatim>\<open>strings.Builder\<close>: both streams of the child are one pipe, so the builder receives
  every chunk in the order it was written. The result is the builder's text and the
  error of \<^verbatim>\<open>Run\<close> (\<open>True\<close> when it is not nil: the start failed or the status is not 0).
\<close>

definition Cmd_Run :: "(Cmd \<Rightarrow> run_outcome) \<Rightarrow> Cmd \<Rightarrow> string \<times> bool" where
  "Cmd_Run os cmd =
     (case os cmd of
        StartFailed \<Rightarrow> ([], True)
      | Exited ws st \<Rightarrow> (concat (map snd ws), st \<noteq> 0))"

subsection \<open>The external query executor: \<^verbatim>\<open>jq\<close>\<close>

text \<open>
  One call of \<^verbatim>\<open>jq(content, filter)\<close>, as the trace of a session records it: the two
  arguments and the text returned.
\<close>

record jq_call =
  call_content :: string
  call_filter :: string
  call_out :: string

type_synonym trace = "jq_call list"

text \<open>
  \<^verbatim>\<open>func jq(content, filter string) string\<close>. The error of \<^verbatim>\<open>cmd.Run()\<close> is assigned to
  the blank identifier. The function takes the trace of the calls made so far and
  returns it with this call added.
\<close>

definition jq :: "(Cmd \<Rightarrow> run_outcome) \<Rightarrow> trace \<Rightarrow> string \<Rightarrow> string \<Rightarrow> string \<times> trace" where
  "jq os tr content' filter' =
     (let cmd = exec_Command ''jq'' [''--color-output'', cmp_Or [filter', ''.'']];
          cmd = cmd\<lparr>Stdin := content'\<rparr>;
          (sb, _) = Cmd_Run os cmd
      in (sb, tr @ [\<lparr>call_content = content', call_filter = filter', call_out = sb\<rparr>]))"

subsection \<open>The widgets of the Bubbles library\<close>

text \<open>
  Modelled from the spec: the widget types \<^verbatim>\<open>textinput.Model\<close>, \<^verbatim>\<open>viewport.Model\<close>,
  \<^verbatim>\<open>help.Model\<close> and \<^verbatim>\<open>key.Binding\<close> belong to a library that is not part of the
  repository. Each record has the fields that \<^verbatim>\<open>main.go\<close> reads or writes and those the
  specification lists for the widget's state (for the input field: raw text, cursor
  position, focused flag, width; for the viewport: content, scroll offset, width,
  height). The operations \<^verbatim>\<open>main.go\<close> calls on them do what the specification says
  they do.
\<close>

record textinput_Model =
  ti_value :: string
  ti_pos :: nat
  ti_focus :: bool
  ti_Width :: int
  Placeholder :: string

definition textinput_New :: textinput_Model where
  "textinput_New = \<lparr>ti_value = [], ti_pos = 0, ti_focus = False, ti_Width = 0, Placeholder = []\<rparr>"

definition Focus :: "textinput_Model \<Rightarrow> textinput_Model" where
  "Focus ti = ti\<lparr>ti_focus := True\<rparr>"

definition Blur :: "textinput_Model \<Rightarrow> textinput_Model" where
  "Blur ti = ti\<lparr>ti_focus := False\<rparr>"

definition Value :: "textinput_Model \<Rightarrow> string" where
  "Value ti = ti_value ti"

record viewport_Model =
  vp_Width :: int
  vp_Height :: int
  YOffset :: int
  vp_content :: string
  HighPerformanceRendering :: bool

definition viewport_New :: "int \<Rightarrow> int \<Rightarrow> viewport_Model" where
  "viewport_New width height =
     \<lparr>vp_Width = width, vp_Height = height, YOffset = 0, vp_content = [],
      HighPerformanceRendering = False\<rparr>"

text \<open>Set content: replaces the buffer and leaves the scroll offset as it is.\<close>

definition SetContent :: "viewport_Model \<Rightarrow> string \<Rightarrow> viewport_Model" where
  "SetContent vp s = vp\<lparr>vp_content := s\<rparr>"

text \<open>Scroll to top: the scroll offset becomes 0, the first line of the content.\<close>

definition GotoTop :: "viewport_Model \<Rightarrow> viewport_Model" where
  "GotoTop vp = vp\<lparr>YOffset := 0\<rparr>"

record help_Model =
  help_Width :: int
  ShowAll :: bool

definition help_New :: help_Model where
  "help_New = \<lparr>help_Width = 0, ShowAll = False\<rparr>"

record Binding =
  b_keys :: "string list"
  b_help :: "string \<times> string"
  disabled :: bool

definition key_NewBinding :: "string list \<Rightarrow> string \<times> string \<Rightarrow> Binding" where
  "key_NewBinding ks h = \<lparr>b_keys = ks, b_help = h, disabled = False\<rparr>"

definition SetEnabled :: "Binding \<Rightarrow> bool \<Rightarrow> Binding" where
  "SetEnabled b v = b\<lparr>disabled := \<not> v\<rparr>"

definition Enabled :: "Binding \<Rightarrow> bool" where
  "Enabled b = (\<not> disabled b \<and> b_keys b \<noteq> [])"

text \<open>\<^verbatim>\<open>type keyMap struct\<close> with \<^verbatim>\<open>defaultKeyMap\<close>, \<^verbatim>\<open>ShortHelp\<close> and \<^verbatim>\<open>FullHelp\<close>.\<close>

record keyMap =
  quit :: Binding
  focusNextPane :: Binding
  eval :: Binding

definition defaultKeyMap :: keyMap where
  "defaultKeyMap =
     \<lparr>quit = key_NewBinding [''ctrl+c''] (''ctrl+c'', ''quit''),
      focusNextPane = key_NewBinding [''tab''] (''tab'', ''focus next pane''),
      eval = key_NewBinding [''enter''] (''enter'', ''eval'')\<rparr>"

definition ShortHelp :: "keyMap \<Rightarrow> Binding list" where
  "ShortHelp k = [quit k, eval k, focusNextPane k]"

definition FullHelp :: "keyMap \<Rightarrow> Binding list list" where
  "FullHelp k = [[quit k, eval k, focusNextPane k]]"

text \<open>\<^verbatim>\<open>lipgloss.Height(s)\<close>: the number of lines of \<^verbatim>\<open>s\<close>, one more than its newlines.\<close>

definition lipgloss_Height :: "string \<Rightarrow> int" where
  "lipgloss_Height s = int (length (filter (\<lambda>c. c = CHR 0x0A) s)) + 1"

subsection \<open>Messages and commands of the Bubble Tea runtime\<close>

text \<open>
  A \<^verbatim>\<open>tea.Msg\<close> is a resize (\<^verbatim>\<open>tea.WindowSizeMsg{Width, Height}\<close>), a key press
  (\<^verbatim>\<open>tea.KeyMsg\<close>) or a value of any other type. The key type \<open>'k\<close> is the library's;
  \<^verbatim>\<open>Update\<close> reads a key through \<^verbatim>\<open>msg.String()\<close> only. A \<^verbatim>\<open>tea.Cmd\<close> is \<^verbatim>\<open>tea.Quit\<close>
  or a command of a widget; \<^verbatim>\<open>nil\<close> is \<open>None\<close>.
\<close>

datatype 'k msg =
    WindowSizeMsg int int
  | KeyMsg 'k
  | OtherMsg string

datatype cmd = Quit | WidgetCmd nat

text \<open>
  What the libraries and the operating system do, as \<^verbatim>\<open>Update\<close> and \<^verbatim>\<open>jq\<close> use them:
  running a command, naming a key (\<^verbatim>\<open>msg.String()\<close>), a widget's own handling of a key
  (\<^verbatim>\<open>m.textinput.Update(msg)\<close>, \<^verbatim>\<open>m.viewport.Update(msg)\<close>), and the rendering of the
  input field (\<^verbatim>\<open>m.textinput.View()\<close>), of the help (\<^verbatim>\<open>m.help.View(m.keys)\<close>, which asks
  the key map for \<^verbatim>\<open>ShortHelp\<close> or \<^verbatim>\<open>FullHelp\<close>) and of the margin style
  (\<^verbatim>\<open>_marginTop1.Render\<close>).
\<close>

record 'k lib =
  run_process :: "Cmd \<Rightarrow> run_outcome"
  key_String :: "'k \<Rightarrow> string"
  textinput_Update :: "textinput_Model \<Rightarrow> 'k \<Rightarrow> textinput_Model \<times> cmd option"
  viewport_Update :: "viewport_Model \<Rightarrow> 'k \<Rightarrow> viewport_Model \<times> cmd option"
  textinput_View :: "textinput_Model \<Rightarrow> string"
  help_View :: "help_Model \<Rightarrow> keyMap \<Rightarrow> string"
  marginTop1_Render :: "string \<Rightarrow> string"

subsection \<open>The model\<close>

text \<open>\<^verbatim>\<open>type model struct\<close>; the field \<^verbatim>\<open>help\<close> is written \<open>help'\<close>.\<close>

record model =
  help' :: help_Model
  content :: string
  result :: string
  viewport :: viewport_Model
  keys :: keyMap
  textinput :: textinput_Model
  ready :: bool
  focusViewport :: bool

text \<open>\<^verbatim>\<open>func (m model) jqFilter() string\<close>\<close>

definition jqFilter :: "model \<Rightarrow> string" where
  "jqFilter m = cmp_Or [TrimSpace (Value (textinput m)), ''.'']"

text \<open>\<^verbatim>\<open>func newModel(content string) model\<close>. The fields the literal does not name
  (\<^verbatim>\<open>viewport\<close>, \<^verbatim>\<open>ready\<close>, \<^verbatim>\<open>focusViewport\<close>) have their zero values.\<close>

definition newModel :: "'k lib \<Rightarrow> trace \<Rightarrow> string \<Rightarrow> model \<times> trace" where
  "newModel lib tr content' =
     (let ti = textinput_New;
          ti = Focus ti;
          ti = ti\<lparr>Placeholder := ''jq filter''\<rparr>;
          (out, tr') = jq (run_process lib) tr content' ''.''
      in (\<lparr>help' = help_New,
           content = content',
           result = out,
           viewport = \<lparr>vp_Width = 0, vp_Height = 0, YOffset = 0, vp_content = [],
                        HighPerformanceRendering = False\<rparr>,
           keys = defaultKeyMap,
           textinput = ti,
           ready = False,
           focusViewport = False\<rparr>, tr'))"

text \<open>
  \<^verbatim>\<open>func (m model) Update(msg tea.Msg) (tea.Model, tea.Cmd)\<close>, with the trace of the
  \<^verbatim>\<open>jq\<close> calls threaded through. Widths and heights are Go \<^verbatim>\<open>int\<close>s; a terminal's are
  16-bit, so the subtraction cannot overflow and \<^typ>\<open>int\<close> is used.
\<close>

definition Update :: "'k lib \<Rightarrow> trace \<Rightarrow> model \<Rightarrow> 'k msg \<Rightarrow> (model \<times> cmd option) \<times> trace" where
  "Update lib tr m msg =
     (case msg of
        WindowSizeMsg Width Height \<Rightarrow>
          (let inputHeight = lipgloss_Height (textinput_View lib (textinput m));
               helpHeight = lipgloss_Height
                 (marginTop1_Render lib (help_View lib (help' m) (keys m)));
               margin = inputHeight + helpHeight;
               m = (if \<not> ready m
                    then m\<lparr>viewport :=
                              SetContent
                                ((viewport_New Width (Height - margin))
                                   \<lparr>HighPerformanceRendering := False\<rparr>)
                                (result m),
                           ready := True\<rparr>
                    else m\<lparr>viewport :=
                              (viewport m)\<lparr>vp_Width := Width, vp_Height := Height - margin\<rparr>\<rparr>);
               m = m\<lparr>textinput := (textinput m)\<lparr>ti_Width := Width\<rparr>\<rparr>;
               m = m\<lparr>help' := (help' m)\<lparr>help_Width := Width\<rparr>\<rparr>
           in ((m, None), tr))
      | KeyMsg k \<Rightarrow>
          (if key_String lib k = ''ctrl+c'' then ((m, Some Quit), tr)
           else if key_String lib k = ''tab'' then
             (let m = (if \<not> focusViewport m
                       then m\<lparr>textinput := Blur (textinput m),
                              keys := (keys m)\<lparr>eval := SetEnabled (eval (keys m)) False\<rparr>\<rparr>
                       else m\<lparr>textinput := Focus (textinput m),
                              keys := (keys m)\<lparr>eval := SetEnabled (eval (keys m)) True\<rparr>\<rparr>);
                  m = m\<lparr>focusViewport := \<not> focusViewport m\<rparr>
              in ((m, None), tr))
           else if key_String lib k = ''enter'' then
             (if \<not> focusViewport m
              then (let (out, tr') = jq (run_process lib) tr (content m) (jqFilter m);
                        m = m\<lparr>result := out\<rparr>;
                        m = m\<lparr>viewport := SetContent (viewport m) out\<rparr>;
                        m = m\<lparr>viewport := GotoTop (viewport m)\<rparr>
                    in ((m, None), tr'))
              else ((m, None), tr))
           else if \<not> focusViewport m
             then (let (ti, c) = textinput_Update lib (textinput m) k
                   in ((m\<lparr>textinput := ti\<rparr>, c), tr))
             else (let (vp, c) = viewport_Update lib (viewport m) k
                   in ((m\<lparr>viewport := vp\<rparr>, c), tr)))
      | OtherMsg _ \<Rightarrow> ((m, None), tr))"

text \<open>The sum of the two rendered heights that the resize branch of \<^verbatim>\<open>Update\<close> calls
  \<^verbatim>\<open>margin\<close>, as a function of the model it is computed from.\<close>

definition margin_of :: "'k lib \<Rightarrow> model \<Rightarrow> int" where
  "margin_of lib m =
     lipgloss_Height (textinput_View lib (textinput m)) +
     lipgloss_Height (marginTop1_Render lib (help_View lib (help' m) (keys m)))"

subsection \<open>The event loop\<close>

text \<open>The state of a session after a sequence of messages, each processed by
  \<^verbatim>\<open>Update\<close> in the order of arrival.\<close>

fun steps :: "'k lib \<Rightarrow> model \<times> trace \<Rightarrow> 'k msg list \<Rightarrow> model \<times> trace" where
  "steps lib s [] = s"
| "steps lib s (msg # msgs) =
     (case Update lib (snd s) (fst s) msg of ((m', c), tr') \<Rightarrow> steps lib (m', tr') msgs)"

datatype error = Error string

text \<open>What the runtime hands to the program: a message for \<^verbatim>\<open>Update\<close>, or its own
  failure (for instance, the terminal cannot be read).\<close>

datatype 'k event = Deliver "'k msg" | RuntimeError error

text \<open>
  Modelled from the spec: \<^verbatim>\<open>p.Run()\<close> of the Bubble Tea runtime, which is not part of
  the repository. Events are processed strictly in arrival order; once \<^verbatim>\<open>Update\<close>
  returns \<^verbatim>\<open>tea.Quit\<close> no further event is processed and the final model is returned; a
  failure of the runtime is returned as an error. \<open>None\<close>: the events ran out before
  a quit, and the program is still waiting.
\<close>

fun Program_Run :: "'k lib \<Rightarrow> trace \<Rightarrow> model \<Rightarrow> 'k event list \<Rightarrow> ((error + model) \<times> trace) option" where
  "Program_Run lib tr m [] = None"
| "Program_Run lib tr m (RuntimeError e # evs) = Some (Inl e, tr)"
| "Program_Run lib tr m (Deliver msg # evs) =
     (case Update lib tr m msg of
        ((m', c), tr') \<Rightarrow>
          if c = Some Quit then Some (Inr m', tr') else Program_Run lib tr' m' evs)"

subsection \<open>Loading the document\<close>

text \<open>
  What \<^verbatim>\<open>io.Copy\<close> gets from a source: all of its bytes, or the bytes read before a
  failure and the failure.
\<close>

datatype read_outcome = ReadAll string | ReadFailed string error

text \<open>The operating system as \<^verbatim>\<open>main\<close> sees it: \<^verbatim>\<open>os.Open(name)\<close> and the reads of the
  opened file, the reads of \<^verbatim>\<open>os.Stdin\<close>, and \<^verbatim>\<open>exec.LookPath\<close>.\<close>

record os_env =
  os_Open :: "string \<Rightarrow> error + read_outcome"
  os_Stdin :: read_outcome
  exec_LookPath :: "string \<Rightarrow> error + string"

text \<open>\<^verbatim>\<open>io.Copy(dst, src)\<close> into a \<^verbatim>\<open>strings.Builder\<close>: what was read is appended, also
  when the copy ends in an error.\<close>

definition io_Copy :: "string \<Rightarrow> read_outcome \<Rightarrow> string \<times> error option" where
  "io_Copy dst src =
     (case src of
        ReadAll d \<Rightarrow> (dst @ d, None)
      | ReadFailed d e \<Rightarrow> (dst @ d, Some e))"

text \<open>\<^verbatim>\<open>func readFile(dst io.Writer, name string) error\<close>, returning the builder too.\<close>

definition readFile :: "os_env \<Rightarrow> string \<Rightarrow> string \<Rightarrow> string \<times> error option" where
  "readFile os dst name =
     (case os_Open os name of
        Inl err \<Rightarrow> (dst, Some err)
      | Inr f \<Rightarrow> io_Copy dst f)"

text \<open>The loop of \<^verbatim>\<open>getContent\<close> over \<^verbatim>\<open>flag.Args()\<close>, which breaks at the first error.\<close>

fun readFiles :: "os_env \<Rightarrow> string \<Rightarrow> string list \<Rightarrow> string \<times> error option" where
  "readFiles os sb [] = (sb, None)"
| "readFiles os sb (name # names) =
     (case readFile os sb name of
        (sb', Some err) \<Rightarrow> (sb', Some err)
      | (sb', None) \<Rightarrow> readFiles os sb' names)"

text \<open>\<^verbatim>\<open>func getContent() (string, error)\<close>; \<open>args\<close> is \<^verbatim>\<open>flag.Args()\<close>.\<close>

definition getContent :: "os_env \<Rightarrow> string list \<Rightarrow> string \<times> error option" where
  "getContent os args =
     (let (sb, err) = (if length args = 0 then io_Copy [] (os_Stdin os)
                       else readFiles os [] args)
      in if err \<noteq> None then ([], err) else (sb, None))"

text \<open>The contents of a file that opens and reads without error.\<close>

definition file_contents :: "os_env \<Rightarrow> string \<Rightarrow> string option" where
  "file_contents os name =
     (case os_Open os name of
        Inr (ReadAll d) \<Rightarrow> Some d
      | _ \<Rightarrow> None)"

subsection \<open>The program\<close>

text \<open>How the process ends: status 0, or \<^verbatim>\<open>log.Fatal\<close> with its message (status 1).\<close>

datatype exit = Success | Fatal string

definition Error_text :: "error \<Rightarrow> string" where
  "Error_text e = (case e of Error s \<Rightarrow> s)"

text \<open>
  \<^verbatim>\<open>func main()\<close>: the text written to standard output and how the process ends, or
  \<open>None\<close> when the session has not ended. The session draws on standard error.
\<close>

definition main :: "'k lib \<Rightarrow> os_env \<Rightarrow> string list \<Rightarrow> 'k event list \<Rightarrow> (string \<times> exit) option" where
  "main lib os args events =
     (case exec_LookPath os ''jq'' of
        Inl err \<Rightarrow> Some ([], Fatal (CHR 0x27 # ''jq: command not found''))
      | Inr _ \<Rightarrow>
          (case getContent os args of
             (_, Some err) \<Rightarrow> Some ([], Fatal (Error_text err))
           | (content', None) \<Rightarrow>
               (case newModel lib [] content' of
                  (m0, tr0) \<Rightarrow>
                    (case Program_Run lib tr0 m0 events of
                       None \<Rightarrow> None
                     | Some (Inl err, _) \<Rightarrow> Some ([], Fatal (Error_text err))
                     | Some (Inr m, _) \<Rightarrow> Some (jqFilter m @ [CHR 0x0A], Success)))))"

subsection \<open>Notions used to state the properties\<close>

text \<open>A string that consists of white-space code points only (possibly none).\<close>

inductive whitespace :: "string \<Rightarrow> bool" where
  empty: "whitespace []"
| rune: "e \<in> set White_Space \<Longrightarrow> whitespace s \<Longrightarrow> whitespace (e @ s)"

text \<open>The resize message for a terminal of the given width and height.\<close>

definition resize :: "int \<times> int \<Rightarrow> 'k msg" where
  "resize d = WindowSizeMsg (fst d) (snd d)"

text \<open>The invariant of a session on the document \<open>doc\<close>: the model still holds the
  document, an evaluation has been made, and the model's result is the output of the
  last one.\<close>

definition session_inv :: "string \<Rightarrow> model \<times> trace \<Rightarrow> bool" where
  "session_inv doc s =
     (content (fst s) = doc \<and> snd s \<noteq> [] \<and> result (fst s) = call_out (last (snd s)))"

subsection \<open>A concrete library, system and model\<close>

text \<open>
  Keys are named by their strings. The engine of this library copies its input to its
  normal output, writes its last argument to its diagnostic output and exits with
  status 5; the input field appends the key it is given; the viewport scrolls down by
  one line; the input field renders as one line and the help as two.
\<close>

definition demo_lib :: "string lib" where
  "demo_lib =
     \<lparr>run_process = (\<lambda>c. Exited [(Stdout, Stdin c), (Stderr, last (Args c))] 5),
      key_String = (\<lambda>k. k),
      textinput_Update = (\<lambda>ti k. (ti\<lparr>ti_value := ti_value ti @ k\<rparr>, None)),
      viewport_Update = (\<lambda>vp k. (vp\<lparr>YOffset := YOffset vp + 1\<rparr>, None)),
      textinput_View = (\<lambda>ti. ''> '' @ filter (\<lambda>c. c \<noteq> CHR 0x0A) (ti_value ti)),
      help_View = (\<lambda>h k. ''ctrl+c quit, enter eval, tab focus next pane''),
      marginTop1_Render = (\<lambda>s. CHR 0x0A # s)\<rparr>"

definition demo_model :: model where
  "demo_model =
     \<lparr>help' = help_New, content = ''{}'', result = ''old'',
      viewport = \<lparr>vp_Width = 80, vp_Height = 21, YOffset = 7, vp_content = ''old'',
                  HighPerformanceRendering = False\<rparr>,
      keys = defaultKeyMap,
      textinput = \<lparr>ti_value = ''  .a  '', ti_pos = 6, ti_focus = True, ti_Width = 80,
                   Placeholder = ''jq filter''\<rparr>,
      ready = True, focusViewport = False\<rparr>"

text \<open>A system with \<^verbatim>\<open>jq\<close> installed and two readable files, a file whose reading fails after
  two bytes and no other file, and standard input holds a document.\<close>

definition demo_os :: os_env where
  "demo_os =
     \<lparr>os_Open = (\<lambda>name. if name = ''a.json'' then Inr (ReadAll ''[1, '')
                        else if name = ''b.json'' then Inr (ReadAll ''2]'')
                        else if name = ''torn'' then Inr (ReadFailed ''[3'' (Error ''read error''))
                        else Inl (Error ''no such file'')),
      os_Stdin = ReadAll ''[0]'',
      exec_LookPath = (\<lambda>name. if name = ''jq'' then Inr ''/usr/bin/jq''
                              else Inl (Error ''not found''))\<rparr>"

text \<open>A session: the terminal reports its size, the user types \<^verbatim>\<open>  .a  \<close>, submits
  and quits; the key after the quit is never processed. And the model at the quit.\<close>

definition demo_events :: "string event list" where
  "demo_events =
     [Deliver (WindowSizeMsg 80 24), Deliver (KeyMsg ''  ''), Deliver (KeyMsg ''.a''),
      Deliver (KeyMsg ''  ''), Deliver (KeyMsg ''enter''), Deliver (KeyMsg ''ctrl+c''),
      Deliver (KeyMsg ''x'')]"

definition demo_final :: model where
  "demo_final =
     \<lparr>help' = \<lparr>help_Width = 80, ShowAll = False\<rparr>, content = ''[1, 2]'',
      result = ''[1, 2].a'',
      viewport = \<lparr>vp_Width = 80, vp_Height = 21, YOffset = 0, vp_content = ''[1, 2].a'',
                  HighPerformanceRendering = False\<rparr>,
      keys = defaultKeyMap,
      textinput = \<lparr>ti_value = ''  .a  '', ti_pos = 0, ti_focus = True, ti_Width = 80,
                   Placeholder = ''jq filter''\<rparr>,
      ready = True, focusViewport = False\<rparr>"

text \<open>A sequence of messages with two submissions, the second one while the viewport
  has the focus.\<close>

definition demo_msgs :: "string msg list" where
  "demo_msgs = [WindowSizeMsg 80 24, KeyMsg ''.a'', KeyMsg ''enter'', KeyMsg ''tab'',
      KeyMsg ''down'', KeyMsg ''enter'', WindowSizeMsg 100 30]"

section \<open>Properties\<close>

subsection \<open>Auxiliary facts\<close>

lemma jq_fst:
  "fst (jq os tr d f) =
     fst (Cmd_Run os ((exec_Command ''jq'' [''--color-output'', cmp_Or [f, ''.'']])\<lparr>Stdin := d\<rparr>))"
  by (simp add: jq_def Let_def split: prod.splits)

lemma jq_snd:
  "snd (jq os tr d f) =
     tr @ [\<lparr>call_content = d, call_filter = f, call_out = fst (jq os tr d f)\<rparr>]"
  by (simp add: jq_def Let_def split: prod.splits)





text \<open>\<^verbatim>\<open>TrimSpace\<close> removes white space and nothing else, from both ends, and leaves no
  white-space code point at either end.\<close>

lemma whitespace_append: "whitespace a \<Longrightarrow> whitespace b \<Longrightarrow> whitespace (a @ b)"
proof (induction rule: whitespace.induct)
  case empty
  then show ?case by simp
next
  case (rune e s)
  from rune have "whitespace (s @ b)" by simp
  with rune(1) have "whitespace (e @ (s @ b))" by (rule whitespace.rune)
  then show ?case by simp
qed

lemma whitespace_single: "e \<in> set White_Space \<Longrightarrow> whitespace e"
  using whitespace.rune[of e "[]"] by (simp add: whitespace.empty)

lemma find_take:
  assumes "find (\<lambda>e. e \<noteq> [] \<and> take (length e) (c # cs) = e) encs = Some e"
  shows "e \<in> set encs \<and> c # cs = e @ drop (length e - 1) cs"
proof -
  from assms have e: "e \<in> set encs" "e \<noteq> []" "take (length e) (c # cs) = e"
    by (auto simp: find_Some_iff)
  have "c # cs = take (length e) (c # cs) @ drop (length e) (c # cs)" by simp
  also have "drop (length e) (c # cs) = drop (length e - 1) cs"
    using e(2) by (cases e) simp_all
  finally show ?thesis using e by simp
qed

lemma trimLeading_decomp:
  "\<exists>a. s = a @ trimLeading White_Space s \<and> whitespace a"
proof (induction White_Space s rule: trimLeading.induct)
  case 1
  show ?case by (simp add: whitespace.empty)
next
  case (2 c cs)
  show ?case
  proof (cases "find (\<lambda>e. e \<noteq> [] \<and> take (length e) (c # cs) = e) White_Space")
    case None
    then show ?thesis by (simp add: whitespace.empty)
  next
    case (Some e)
    from find_take[OF Some] have e: "e \<in> set White_Space" and s: "c # cs = e @ drop (length e - 1) cs"
      by simp_all
    from 2[OF Some] obtain a where a: "drop (length e - 1) cs = a @ trimLeading White_Space (drop (length e - 1) cs)"
      and wa: "whitespace a" by blast
    have "whitespace (e @ a)" using e wa by (rule whitespace.rune)
    moreover have "trimLeading White_Space (c # cs) =
        trimLeading White_Space (drop (length e - 1) cs)"
      by (simp add: Some)
    with s a have "c # cs = (e @ a) @ trimLeading White_Space (c # cs)"
      by (metis append.assoc)
    ultimately show ?thesis by blast
  qed
qed

lemma trimLeading_rev_decomp:
  "\<exists>a. s = a @ trimLeading (map rev White_Space) s \<and> whitespace (rev a)"
proof (induction "map rev White_Space" s rule: trimLeading.induct)
  case 1
  show ?case by (simp add: whitespace.empty)
next
  case (2 c cs)
  show ?case
  proof (cases "find (\<lambda>e. e \<noteq> [] \<and> take (length e) (c # cs) = e) (map rev White_Space)")
    case None
    then show ?thesis by (simp add: whitespace.empty)
  next
    case (Some e)
    from find_take[OF Some] have e: "e \<in> set (map rev White_Space)" and s: "c # cs = e @ drop (length e - 1) cs"
      by simp_all
    from e have re: "rev e \<in> set White_Space" by auto
    from 2[OF Some] obtain a where a: "drop (length e - 1) cs = a @ trimLeading (map rev White_Space) (drop (length e - 1) cs)"
      and wa: "whitespace (rev a)" by blast
    have "whitespace (rev a @ rev e)" using wa whitespace_single[OF re] by (rule whitespace_append)
    then have "whitespace (rev (e @ a))" by simp
    moreover have "trimLeading (map rev White_Space) (c # cs) =
        trimLeading (map rev White_Space) (drop (length e - 1) cs)"
      by (simp add: Some)
    with s a have "c # cs = (e @ a) @ trimLeading (map rev White_Space) (c # cs)"
      by (metis append.assoc)
    ultimately show ?thesis by blast
  qed
qed

lemma TrimSpace_decomp: "\<exists>a b. s = a @ TrimSpace s @ b \<and> whitespace a \<and> whitespace b"
proof -
  obtain a where a: "s = a @ TrimLeft s" and wa: "whitespace a"
    using trimLeading_decomp[of s] unfolding TrimLeft_def by blast
  obtain b where b: "rev (TrimLeft s) = b @ trimLeading (map rev White_Space) (rev (TrimLeft s))"
    and wb: "whitespace (rev b)"
    using trimLeading_rev_decomp[of "rev (TrimLeft s)"] by blast
  from b have "rev (rev (TrimLeft s)) = rev (b @ trimLeading (map rev White_Space) (rev (TrimLeft s)))"
    by simp
  then have "TrimLeft s = TrimSpace s @ rev b"
    by (simp add: TrimSpace_def TrimRight_def)
  with a have "s = a @ TrimSpace s @ rev b" by simp
  with wa wb show ?thesis by blast
qed

lemma trimLeading_no_space:
  "e \<in> set encs \<Longrightarrow> e \<noteq> [] \<Longrightarrow> take (length e) (trimLeading encs s) \<noteq> e"
proof (induction encs s rule: trimLeading.induct)
  case (1 encs)
  then show ?case by simp
next
  case (2 encs c cs)
  show ?case
  proof (cases "find (\<lambda>e. e \<noteq> [] \<and> take (length e) (c # cs) = e) encs")
    case None
    then have "trimLeading encs (c # cs) = c # cs" by simp
    moreover from None 2(2,3) have "take (length e) (c # cs) \<noteq> e"
      by (auto simp: find_None_iff)
    ultimately show ?thesis by simp
  next
    case (Some e')
    with 2 show ?thesis by simp
  qed
qed

lemma TrimSpace_no_trailing:
  assumes "e \<in> set White_Space"
    and "length e \<le> length (TrimSpace s)"
  shows "drop (length (TrimSpace s) - length e) (TrimSpace s) \<noteq> e"
proof -
  from assms(1) have "rev e \<in> set (map rev White_Space)" and "rev e \<noteq> []"
    by (auto simp: White_Space_def asciiSpace_def)
  from trimLeading_no_space[OF this, of "rev (TrimLeft s)"]
  have "take (length e) (rev (TrimSpace s)) \<noteq> rev e"
    by (simp add: TrimSpace_def TrimRight_def)
  with assms(2) show ?thesis
    by (auto simp: take_rev)
qed

lemma TrimSpace_no_leading:
  assumes "e \<in> set White_Space"
  shows "take (length e) (TrimSpace s) \<noteq> e"
proof
  assume t: "take (length e) (TrimSpace s) = e"
  from assms have ne: "e \<noteq> []"
    by (auto simp: White_Space_def asciiSpace_def)
  obtain b where b: "rev (TrimLeft s) = b @ trimLeading (map rev White_Space) (rev (TrimLeft s))"
    using trimLeading_rev_decomp[of "rev (TrimLeft s)"] by blast
  then have "rev (rev (TrimLeft s)) = rev (b @ trimLeading (map rev White_Space) (rev (TrimLeft s)))"
    by simp
  then have l: "TrimLeft s = TrimSpace s @ rev b"
    by (simp add: TrimSpace_def TrimRight_def)
  from t have "length (take (length e) (TrimSpace s)) = length e"
    by simp
  then have "length e \<le> length (TrimSpace s)"
    by simp
  with t l have "take (length e) (TrimLeft s) = e"
    by simp
  with trimLeading_no_space[OF assms ne, of s] show False
    by (simp add: TrimLeft_def)
qed

lemma TrimSpace_demo: "TrimSpace ''  .a  '' = ''.a''"
  by (simp add: TrimSpace_def TrimLeft_def TrimRight_def White_Space_def asciiSpace_def)

lemma readFile_ok: "file_contents os n = Some d \<Longrightarrow> readFile os sb n = (sb @ d, None)"
  by (auto simp: file_contents_def readFile_def io_Copy_def split: sum.splits read_outcome.splits)

lemma readFile_fail: "file_contents os n = None \<Longrightarrow> \<exists>sb' e. readFile os sb n = (sb', Some e)"
  by (auto simp: file_contents_def readFile_def io_Copy_def split: sum.splits read_outcome.splits)

lemma readFiles_ok:
  "map (file_contents os) names = map Some ds \<Longrightarrow> readFiles os sb names = (sb @ concat ds, None)"
proof (induction names arbitrary: sb ds)
  case Nil
  then show ?case by simp
next
  case (Cons n names)
  then obtain d ds' where ds: "ds = d # ds'" and d: "file_contents os n = Some d"
    and rest: "map (file_contents os) names = map Some ds'"
    by (cases ds) auto
  from Cons.IH[OF rest] show ?case
    by (simp add: ds readFile_ok[OF d])
qed

lemma readFiles_fail:
  "\<exists>n \<in> set names. file_contents os n = None \<Longrightarrow> \<exists>sb' e. readFiles os sb names = (sb', Some e)"
proof (induction names arbitrary: sb)
  case Nil
  then show ?case by simp
next
  case (Cons n names)
  show ?case
  proof (cases "file_contents os n")
    case None
    from readFile_fail[OF this, of sb] show ?thesis by auto
  next
    case (Some d)
    with Cons.prems have "\<exists>n \<in> set names. file_contents os n = None" by auto
    from Cons.IH[OF this] show ?thesis
      by (simp add: readFile_ok[OF Some])
  qed
qed

lemma steps_append: "steps lib s (xs @ ys) = steps lib (steps lib s xs) ys"
  by (induction xs arbitrary: s) (simp_all split: prod.splits)

lemma steps_Cons:
  "steps lib s (msg # msgs) =
     steps lib (fst (fst (Update lib (snd s) (fst s) msg)), snd (Update lib (snd s) (fst s) msg)) msgs"
  by (simp split: prod.splits)

lemma steps_snoc:
  "steps lib s (xs @ [msg]) =
     (fst (fst (Update lib (snd (steps lib s xs)) (fst (steps lib s xs)) msg)),
      snd (Update lib (snd (steps lib s xs)) (fst (steps lib s xs)) msg))"
  by (simp add: steps_append split: prod.splits)

lemma Update_first_resize:
  "\<not> ready m \<Longrightarrow>
   Update lib tr m (WindowSizeMsg w h) =
     ((m\<lparr>viewport := \<lparr>vp_Width = w, vp_Height = h - margin_of lib m, YOffset = 0,
                       vp_content = result m, HighPerformanceRendering = False\<rparr>,
         ready := True,
         textinput := (textinput m)\<lparr>ti_Width := w\<rparr>,
         help' := (help' m)\<lparr>help_Width := w\<rparr>\<rparr>, None), tr)"
  by (simp add: Update_def Let_def margin_of_def viewport_New_def SetContent_def)

lemma Update_later_resize:
  "ready m \<Longrightarrow>
   Update lib tr m (WindowSizeMsg w h) =
     ((m\<lparr>viewport := (viewport m)\<lparr>vp_Width := w, vp_Height := h - margin_of lib m\<rparr>,
         textinput := (textinput m)\<lparr>ti_Width := w\<rparr>,
         help' := (help' m)\<lparr>help_Width := w\<rparr>\<rparr>, None), tr)"
  by (simp add: Update_def Let_def margin_of_def)

lemma resizes_keep:
  "sizes \<noteq> [] \<Longrightarrow>
     ready (fst (steps lib (m, tr) (map resize sizes)))
     \<and> (\<not> ready m \<longrightarrow>
          vp_content (viewport (fst (steps lib (m, tr) (map resize sizes)))) = result m
          \<and> YOffset (viewport (fst (steps lib (m, tr) (map resize sizes)))) = 0)"
proof (induction sizes rule: rev_induct)
  case Nil
  then show ?case by simp
next
  case (snoc d sizes)
  show ?case
  proof (cases "sizes = []")
    case True
    then show ?thesis
      by (cases "ready m") (simp_all add: resize_def Update_first_resize Update_later_resize)
  next
    case False
    with snoc.IH show ?thesis
      by (simp add: steps_snoc resize_def Update_later_resize)
  qed
qed

lemma resizes_last:
  "vp_Width (viewport (fst (steps lib (m, tr) (map resize (sizes @ [d]))))) = fst d
   \<and> vp_Height (viewport (fst (steps lib (m, tr) (map resize (sizes @ [d]))))) =
       snd d - margin_of lib (fst (steps lib (m, tr) (map resize sizes)))"
  by (cases "ready (fst (steps lib (m, tr) (map resize sizes)))")
     (simp_all add: steps_snoc resize_def Update_first_resize Update_later_resize)

lemma Update_tab:
  "key_String lib k = ''tab'' \<Longrightarrow>
   Update lib tr m (KeyMsg k) =
     ((m\<lparr>textinput := (textinput m)\<lparr>ti_focus := focusViewport m\<rparr>,
         keys := (keys m)\<lparr>eval := (eval (keys m))\<lparr>disabled := \<not> focusViewport m\<rparr>\<rparr>,
         focusViewport := \<not> focusViewport m\<rparr>, None), tr)"
  by (simp add: Update_def Let_def Blur_def Focus_def SetEnabled_def)

lemma toggles:
  assumes "key_String lib k = ''tab''"
  shows "focusViewport (fst (steps lib (m, tr) (replicate n (KeyMsg k)))) = (focusViewport m \<noteq> odd n)
     \<and> (0 < n \<longrightarrow>
          ti_focus (textinput (fst (steps lib (m, tr) (replicate n (KeyMsg k))))) = (focusViewport m = odd n)
          \<and> disabled (eval (keys (fst (steps lib (m, tr) (replicate n (KeyMsg k)))))) = (focusViewport m \<noteq> odd n))
     \<and> (n = 0 \<longrightarrow> fst (steps lib (m, tr) (replicate n (KeyMsg k))) = m)
     \<and> b_keys (eval (keys (fst (steps lib (m, tr) (replicate n (KeyMsg k)))))) = b_keys (eval (keys m))"
proof (induction n)
  case 0
  then show ?case by simp
next
  case (Suc n)
  have "replicate (Suc n) (KeyMsg k) = replicate n (KeyMsg k) @ [KeyMsg k]"
    by (simp add: replicate_append_same)
  with Suc assms show ?case
    by (auto simp add: steps_snoc Update_tab simp del: replicate_Suc)
qed

lemma newModel_focus:
  "focusViewport (fst (newModel lib tr doc)) = False
   \<and> ti_focus (textinput (fst (newModel lib tr doc))) = True
   \<and> disabled (eval (keys (fst (newModel lib tr doc)))) = False
   \<and> b_keys (eval (keys (fst (newModel lib tr doc)))) = [''enter'']"
  by (simp add: newModel_def Let_def Focus_def textinput_New_def defaultKeyMap_def
      key_NewBinding_def split: prod.splits)

lemma Update_content: "content (fst (fst (Update lib tr m msg))) = content m"
  by (cases msg) (simp_all add: Update_def Let_def split: prod.splits)

lemma Update_inv:
  "session_inv doc (m, tr) \<Longrightarrow>
     session_inv doc (fst (fst (Update lib tr m msg)), snd (Update lib tr m msg))"
  by (cases msg) (auto simp add: Update_def Let_def session_inv_def jq_def split: prod.splits)

lemma newModel_inv: "session_inv doc (newModel lib tr doc)"
  by (simp add: newModel_def session_inv_def jq_def Let_def split: prod.splits)

lemma steps_inv: "session_inv doc s \<Longrightarrow> session_inv doc (steps lib s msgs)"
proof (induction msgs arbitrary: s)
  case Nil
  then show ?case by simp
next
  case (Cons msg msgs)
  from Cons.prems
  have "session_inv doc (fst (fst (Update lib (snd s) (fst s) msg)), snd (Update lib (snd s) (fst s) msg))"
    using Update_inv[of doc "fst s" "snd s" lib msg] by simp
  then show ?case
    using Cons.IH by (simp only: steps_Cons)
qed

text \<open>The model at a quit is a state that \<open>steps\<close> reaches.\<close>

lemma Program_Run_steps:
  "Program_Run lib tr m evs = Some (Inr m', tr') \<Longrightarrow> \<exists>msgs. steps lib (m, tr) msgs = (m', tr')"
proof (induction evs arbitrary: m tr)
  case Nil
  then show ?case by simp
next
  case (Cons ev evs)
  show ?case
  proof (cases ev)
    case (RuntimeError e)
    with Cons.prems show ?thesis by simp
  next
    case (Deliver msg)
    obtain m1 c tr1 where u: "Update lib tr m msg = ((m1, c), tr1)"
      by (metis prod.exhaust)
    show ?thesis
    proof (cases "c = Some Quit")
      case True
      with Cons.prems Deliver u have "steps lib (m, tr) [msg] = (m', tr')" by simp
      then show ?thesis ..
    next
      case False
      with Cons.prems Deliver u have "Program_Run lib tr1 m1 evs = Some (Inr m', tr')" by simp
      from Cons.IH[OF this] obtain msgs where "steps lib (m1, tr1) msgs = (m', tr')" ..
      with u have "steps lib (m, tr) (msg # msgs) = (m', tr')" by simp
      then show ?thesis ..
    qed
  qed
qed

lemma demo_newModel:
  "newModel demo_lib [] ''[1, 2]'' =
     (\<lparr>help' = help_New, content = ''[1, 2]'', result = ''[1, 2].'',
       viewport = viewport_New 0 0, keys = defaultKeyMap,
       textinput = \<lparr>ti_value = [], ti_pos = 0, ti_focus = True, ti_Width = 0,
                    Placeholder = ''jq filter''\<rparr>,
       ready = False, focusViewport = False\<rparr>,
      [\<lparr>call_content = ''[1, 2]'', call_filter = ''.'', call_out = ''[1, 2].''\<rparr>])"
  by (simp add: newModel_def jq_def Cmd_Run_def exec_Command_def demo_lib_def
      textinput_New_def Focus_def viewport_New_def)

lemma demo_run:
  "Program_Run demo_lib (snd (newModel demo_lib [] ''[1, 2]'')) (fst (newModel demo_lib [] ''[1, 2]'')) demo_events =
     Some (Inr demo_final,
       [\<lparr>call_content = ''[1, 2]'', call_filter = ''.'', call_out = ''[1, 2].''\<rparr>,
        \<lparr>call_content = ''[1, 2]'', call_filter = ''.a'', call_out = ''[1, 2].a''\<rparr>])"
  unfolding demo_newModel fst_conv snd_conv
  by (simp add: demo_events_def Update_def demo_lib_def demo_final_def
      lipgloss_Height_def viewport_New_def SetContent_def GotoTop_def help_New_def
      jq_def Cmd_Run_def exec_Command_def jqFilter_def Value_def TrimSpace_demo Let_def)

lemma demo_margin: "margin_of demo_lib m = 3"
  by (simp add: margin_of_def demo_lib_def lipgloss_Height_def)

lemma demo_steps:
  "steps demo_lib (newModel demo_lib [] ''[1, 2]'') demo_msgs =
     (\<lparr>help' = \<lparr>help_Width = 100, ShowAll = False\<rparr>, content = ''[1, 2]'',
       result = ''[1, 2].a'',
       viewport = \<lparr>vp_Width = 100, vp_Height = 27, YOffset = 1, vp_content = ''[1, 2].a'',
                   HighPerformanceRendering = False\<rparr>,
       keys = defaultKeyMap\<lparr>eval := (eval defaultKeyMap)\<lparr>disabled := True\<rparr>\<rparr>,
       textinput = \<lparr>ti_value = ''.a'', ti_pos = 0, ti_focus = False, ti_Width = 100,
                    Placeholder = ''jq filter''\<rparr>,
       ready = True, focusViewport = True\<rparr>,
      [\<lparr>call_content = ''[1, 2]'', call_filter = ''.'', call_out = ''[1, 2].''\<rparr>,
       \<lparr>call_content = ''[1, 2]'', call_filter = ''.a'', call_out = ''[1, 2].a''\<rparr>])"
  unfolding demo_newModel
  by (simp add: demo_msgs_def Update_def demo_lib_def lipgloss_Height_def viewport_New_def
      SetContent_def GotoTop_def help_New_def Blur_def SetEnabled_def
      jq_def Cmd_Run_def exec_Command_def jqFilter_def Value_def TrimSpace_def TrimLeft_def
      TrimRight_def White_Space_def asciiSpace_def Let_def)

subsection \<open>Submission\<close>

text \<open>
  C1. In the InputFocused state (\<^verbatim>\<open>focusViewport\<close> is false), for every model, document
  and library, a submit event (a key whose name is \<^verbatim>\<open>enter\<close>) makes exactly one call of
  the executor \<^verbatim>\<open>jq\<close>, with the model's document and the effective expression
  \<^verbatim>\<open>jqFilter\<close>: the trace grows by that one call. The text \<open>out\<close> the call returned
  becomes the model's \<^verbatim>\<open>result\<close> and the viewport's content, and the viewport's scroll
  offset becomes 0 whatever it was. Nothing else of the model changes and no command
  is returned.
\<close>

theorem submit_evaluates:
  assumes "key_String lib k = ''enter''"
    and "\<not> focusViewport m"
    and "out = fst (jq (run_process lib) tr (content m) (jqFilter m))"
  shows "Update lib tr m (KeyMsg k) =
           ((m\<lparr>result := out,
               viewport := (viewport m)\<lparr>vp_content := out, YOffset := 0\<rparr>\<rparr>, None),
            tr @ [\<lparr>call_content = content m, call_filter = jqFilter m, call_out = out\<rparr>])"
  using assms
  by (simp add: Update_def Let_def SetContent_def GotoTop_def jq_snd[symmetric]
      split: prod.splits)

theorem submit_evaluates_witness:
  "key_String demo_lib ''enter'' = ''enter'' \<and> \<not> focusViewport demo_model \<and>
   YOffset (viewport demo_model) = 7 \<and>
   ''{}.a'' = fst (jq (run_process demo_lib) [] (content demo_model) (jqFilter demo_model)) \<and>
   Update demo_lib [] demo_model (KeyMsg ''enter'') =
     ((demo_model\<lparr>result := ''{}.a'',
                  viewport := (viewport demo_model)\<lparr>vp_content := ''{}.a'', YOffset := 0\<rparr>\<rparr>,
       None),
      [\<lparr>call_content = ''{}'', call_filter = ''.a'', call_out = ''{}.a''\<rparr>])"
proof -
  have f: "jqFilter demo_model = ''.a''"
    by (simp add: jqFilter_def demo_model_def Value_def TrimSpace_demo)
  have c: "content demo_model = ''{}''" and y: "YOffset (viewport demo_model) = 7"
    by (simp_all add: demo_model_def)
  have "fst (jq (run_process demo_lib) [] ''{}'' ''.a'') = ''{}.a''"
    by (simp add: jq_fst Cmd_Run_def exec_Command_def demo_lib_def)
  then have o: "''{}.a'' = fst (jq (run_process demo_lib) [] (content demo_model) (jqFilter demo_model))"
    by (simp only: f c)
  have k: "key_String demo_lib ''enter'' = ''enter''"
    by (simp add: demo_lib_def)
  have v: "\<not> focusViewport demo_model"
    by (simp add: demo_model_def)
  from submit_evaluates [OF k v o] k v o y show ?thesis
    by (simp only: f c append_Nil simp_thms)
qed

text \<open>
  C4. In the ViewportFocused state (\<^verbatim>\<open>focusViewport\<close> is true) a submit event changes
  nothing: the model returned is the model given, in every field (so the result, the
  viewport's content and its scroll offset are as before), no command is returned,
  and the trace of executor calls is the same, so no evaluation was made.
\<close>

theorem submit_ignored_in_viewport:
  assumes "key_String lib k = ''enter''"
    and "focusViewport m"
  shows "Update lib tr m (KeyMsg k) = ((m, None), tr)"
  using assms by (simp add: Update_def)

theorem submit_ignored_in_viewport_witness:
  "key_String demo_lib ''enter'' = ''enter'' \<and>
   focusViewport (demo_model\<lparr>focusViewport := True\<rparr>) \<and>
   Update demo_lib [] (demo_model\<lparr>focusViewport := True\<rparr>) (KeyMsg ''enter'') =
     ((demo_model\<lparr>focusViewport := True\<rparr>, None), [])"
proof -
  have k: "key_String demo_lib ''enter'' = ''enter''"
    by (simp add: demo_lib_def)
  have v: "focusViewport (demo_model\<lparr>focusViewport := True\<rparr>)"
    by simp
  from submit_ignored_in_viewport [OF k v] k v show ?thesis
    by simp
qed

subsection \<open>Messages that are neither a resize nor a key\<close>

text \<open>
  C10. For every model and every message that is not a resize event and not a key
  event, \<^verbatim>\<open>Update\<close> returns the model it was given, unchanged in every field, with no
  command (\<^verbatim>\<open>nil\<close>); it makes no executor call either.
\<close>

theorem other_message_ignored:
  assumes "\<forall>w h. msg \<noteq> WindowSizeMsg w h"
    and "\<forall>k. msg \<noteq> KeyMsg k"
  shows "Update lib tr m msg = ((m, None), tr)"
  using assms by (cases msg) (simp_all add: Update_def)

theorem other_message_ignored_witness:
  "Update demo_lib [] demo_model (OtherMsg ''blink'') = ((demo_model, None), [])"
  using other_message_ignored [of "OtherMsg ''blink''" demo_lib "[]" demo_model]
  by simp

subsection \<open>The effective expression and the executor\<close>



text \<open>
  C3. For every document \<open>d\<close> and expression \<open>f\<close>: when the engine process, run on them,
  writes the chunks \<open>ws\<close> (each to its normal or to its diagnostic output) and exits
  with status \<open>st\<close>, the executor returns the text of all the chunks of both streams,
  in the order written. The status plays no part: an engine that writes the same and
  exits with any other status \<open>st'\<close> gives the same result. When everything was written
  to one stream, the result is that stream's text. The executor returns a text and
  nothing else, so there is no error for a caller to see.
\<close>

theorem jq_returns_all_output:
  assumes "os ((exec_Command ''jq'' [''--color-output'', cmp_Or [f, ''.'']])\<lparr>Stdin := d\<rparr>)
             = Exited ws st"
  shows "fst (jq os tr d f) = concat (map snd ws)
     \<and> fst (jq (\<lambda>c. Exited ws st') tr d f) = fst (jq os tr d f)
     \<and> (list_all (\<lambda>w. fst w = Stdout) ws \<longrightarrow> fst (jq os tr d f) = written Stdout (Exited ws st))
     \<and> (list_all (\<lambda>w. fst w = Stderr) ws \<longrightarrow> fst (jq os tr d f) = written Stderr (Exited ws st))"
  using assms
  by (auto simp add: jq_fst Cmd_Run_def written_def list_all_iff filter_id_conv)

theorem jq_returns_all_output_witness:
  "run_process demo_lib ((exec_Command ''jq'' [''--color-output'', cmp_Or [''..'', ''.'']])\<lparr>Stdin := ''{}''\<rparr>)
     = Exited [(Stdout, ''{}''), (Stderr, ''..'')] 5 \<and>
   fst (jq (run_process demo_lib) [] ''{}'' ''..'') = ''{}..'' \<and>
   fst (jq (\<lambda>c. Exited [(Stdout, ''{}''), (Stderr, ''..'')] 0) [] ''{}'' ''..'') = ''{}..''"
proof -
  have r: "run_process demo_lib ((exec_Command ''jq'' [''--color-output'', cmp_Or [''..'', ''.'']])\<lparr>Stdin := ''{}''\<rparr>)
     = Exited [(Stdout, ''{}''), (Stderr, ''..'')] 5"
    by (simp add: demo_lib_def exec_Command_def)
  from jq_returns_all_output
    [where os = "run_process demo_lib" and f = "''..''" and d = "''{}''" and tr = "[]"
       and st' = 0, OF r] r
  show ?thesis
    by simp
qed

subsection \<open>Loading the document\<close>

text \<open>
  C7. With no file argument the document is what standard input yields. With one or
  more file arguments that all open and read without error, the document is the
  concatenation of their contents, byte for byte, in the order of the arguments. When
  a listed file fails to open or to read, \<^verbatim>\<open>getContent\<close> returns an error together with
  the empty string, never a part of the document, and \<^verbatim>\<open>main\<close> ends with \<^verbatim>\<open>log.Fatal\<close>
  whatever events the terminal would have delivered: the session is not started.
\<close>

theorem getContent_loads_document:
  "getContent os [] = (case os_Stdin os of ReadAll d \<Rightarrow> (d, None)
                                        | ReadFailed d e \<Rightarrow> ([], Some e))
   \<and> (args \<noteq> [] \<and> map (file_contents os) args = map Some ds \<longrightarrow>
        getContent os args = (concat ds, None))
   \<and> ((\<exists>n \<in> set args. file_contents os n = None) \<longrightarrow>
        (\<exists>e. getContent os args = ([], Some e)) \<and>
        (\<exists>text. main lib os args events = Some ([], Fatal text)))"
proof (intro conjI impI)
  show "getContent os [] = (case os_Stdin os of ReadAll d \<Rightarrow> (d, None)
                                        | ReadFailed d e \<Rightarrow> ([], Some e))"
    by (simp add: getContent_def io_Copy_def split: read_outcome.splits)
next
  assume "args \<noteq> [] \<and> map (file_contents os) args = map Some ds"
  then show "getContent os args = (concat ds, None)"
    by (simp add: getContent_def readFiles_ok[of os args ds "[]"])
next
  assume bad: "\<exists>n \<in> set args. file_contents os n = None"
  then have ne: "args \<noteq> []" by auto
  from readFiles_fail[OF bad, of "[]"] obtain sb' e where "readFiles os [] args = (sb', Some e)"
    by blast
  with ne have g: "getContent os args = ([], Some e)"
    by (simp add: getContent_def)
  then show "\<exists>e. getContent os args = ([], Some e)" ..
  from g show "\<exists>text. main lib os args events = Some ([], Fatal text)"
    by (simp add: main_def split: sum.splits)
qed

theorem getContent_loads_document_witness:
  "getContent demo_os [] = (''[0]'', None) \<and>
   getContent demo_os [''a.json'', ''b.json''] = (''[1, 2]'', None) \<and>
   getContent demo_os [''a.json'', ''torn'', ''b.json''] = ([], Some (Error ''read error'')) \<and>
   main demo_lib demo_os [''a.json'', ''torn'', ''b.json''] [] = Some ([], Fatal ''read error'')"
proof -
  have 1: "[''a.json'', ''b.json''] \<noteq> [] \<and>
    map (file_contents demo_os) [''a.json'', ''b.json''] = map Some [''[1, '', ''2]'']"
    by (simp add: file_contents_def demo_os_def)
  have 2: "\<exists>n \<in> set [''a.json'', ''torn'', ''b.json'']. file_contents demo_os n = None"
    by (simp add: file_contents_def demo_os_def)
  have 3: "getContent demo_os [''a.json'', ''torn'', ''b.json''] = ([], Some (Error ''read error''))"
    by (simp add: getContent_def readFile_def io_Copy_def demo_os_def)
  from getContent_loads_document [of demo_os "[''a.json'', ''b.json'']" "[''[1, '', ''2]'']"] 1
  have a: "getContent demo_os [] = (''[0]'', None)"
    and b: "getContent demo_os [''a.json'', ''b.json''] = (''[1, 2]'', None)"
    by (simp_all add: demo_os_def)
  from getContent_loads_document [of demo_os "[''a.json'', ''torn'', ''b.json'']" _ demo_lib "[]"] 2 3
  have c: "main demo_lib demo_os [''a.json'', ''torn'', ''b.json''] [] = Some ([], Fatal ''read error'')"
    by (simp add: main_def demo_os_def Error_text_def)
  from a b 3 c show ?thesis by simp
qed

subsection \<open>Resizing\<close>

text \<open>
  C5. The first resize event, the one processed while \<^verbatim>\<open>ready\<close> is false, sets \<^verbatim>\<open>ready\<close>
  and creates the viewport: width and height from the event (the height less the
  rendered heights of the input field and of the help), scroll offset 0, and the
  current result as content. A resize event processed while \<^verbatim>\<open>ready\<close> is true keeps the
  viewport as it is, content and scroll offset included, but for its width and
  height, which are set from the event in the same way. (Either event also sets the
  widths of the input field and of the help, and changes nothing else of the model.)
  Hence, for every non-empty sequence of resize events processed from a model that is
  not ready: \<^verbatim>\<open>ready\<close> is true after it, so the flag goes from false to true at the first
  event and never again; the viewport's content and scroll offset are those the first
  event gave it; and its width and height are those of the last event.
\<close>

theorem resize_initialises_once:
  "(\<not> ready m \<longrightarrow>
      Update lib tr m (WindowSizeMsg w h) =
        ((m\<lparr>viewport := \<lparr>vp_Width = w, vp_Height = h - margin_of lib m, YOffset = 0,
                          vp_content = result m, HighPerformanceRendering = False\<rparr>,
            ready := True,
            textinput := (textinput m)\<lparr>ti_Width := w\<rparr>,
            help' := (help' m)\<lparr>help_Width := w\<rparr>\<rparr>, None), tr))
   \<and> (ready m \<longrightarrow>
      Update lib tr m (WindowSizeMsg w h) =
        ((m\<lparr>viewport := (viewport m)\<lparr>vp_Width := w, vp_Height := h - margin_of lib m\<rparr>,
            textinput := (textinput m)\<lparr>ti_Width := w\<rparr>,
            help' := (help' m)\<lparr>help_Width := w\<rparr>\<rparr>, None), tr))
   \<and> (\<not> ready m \<longrightarrow>
       ready (fst (steps lib (m, tr) (map resize (d # sizes))))
       \<and> vp_content (viewport (fst (steps lib (m, tr) (map resize (d # sizes))))) = result m
       \<and> YOffset (viewport (fst (steps lib (m, tr) (map resize (d # sizes))))) = 0
       \<and> vp_Width (viewport (fst (steps lib (m, tr) (map resize (d # sizes))))) =
           fst (last (d # sizes))
       \<and> vp_Height (viewport (fst (steps lib (m, tr) (map resize (d # sizes))))) =
           snd (last (d # sizes)) -
           margin_of lib (fst (steps lib (m, tr) (map resize (butlast (d # sizes))))))"
proof (intro conjI impI)
  assume "\<not> ready m"
  then show "Update lib tr m (WindowSizeMsg w h) =
        ((m\<lparr>viewport := \<lparr>vp_Width = w, vp_Height = h - margin_of lib m, YOffset = 0,
                          vp_content = result m, HighPerformanceRendering = False\<rparr>,
            ready := True,
            textinput := (textinput m)\<lparr>ti_Width := w\<rparr>,
            help' := (help' m)\<lparr>help_Width := w\<rparr>\<rparr>, None), tr)"
    by (rule Update_first_resize)
next
  assume "ready m"
  then show "Update lib tr m (WindowSizeMsg w h) =
        ((m\<lparr>viewport := (viewport m)\<lparr>vp_Width := w, vp_Height := h - margin_of lib m\<rparr>,
            textinput := (textinput m)\<lparr>ti_Width := w\<rparr>,
            help' := (help' m)\<lparr>help_Width := w\<rparr>\<rparr>, None), tr)"
    by (rule Update_later_resize)
next
  assume n: "\<not> ready m"
  have ne: "d # sizes \<noteq> []" by simp
  from resizes_keep[OF ne, of lib m tr] n
  show "ready (fst (steps lib (m, tr) (map resize (d # sizes))))"
    and "vp_content (viewport (fst (steps lib (m, tr) (map resize (d # sizes))))) = result m"
    and "YOffset (viewport (fst (steps lib (m, tr) (map resize (d # sizes))))) = 0"
    by blast+
  have sp: "d # sizes = butlast (d # sizes) @ [last (d # sizes)]"
    by (simp only: append_butlast_last_id[OF ne])
  from resizes_last[of lib m tr "butlast (d # sizes)" "last (d # sizes)"]
  show "vp_Width (viewport (fst (steps lib (m, tr) (map resize (d # sizes))))) =
           fst (last (d # sizes))"
    and "vp_Height (viewport (fst (steps lib (m, tr) (map resize (d # sizes))))) =
           snd (last (d # sizes)) -
           margin_of lib (fst (steps lib (m, tr) (map resize (butlast (d # sizes)))))"
    by (simp_all only: sp[symmetric])
qed

theorem resize_initialises_once_witness:
  "\<not> ready (fst (newModel demo_lib [] ''[1, 2]'')) \<and>
   viewport (fst (steps demo_lib (newModel demo_lib [] ''[1, 2]'') [WindowSizeMsg 80 24])) =
     \<lparr>vp_Width = 80, vp_Height = 21, YOffset = 0, vp_content = ''[1, 2].'',
      HighPerformanceRendering = False\<rparr> \<and>
   ready (fst (steps demo_lib (newModel demo_lib [] ''[1, 2]'') [WindowSizeMsg 80 24])) \<and>
   ready demo_model \<and>
   viewport (fst (fst (Update demo_lib [] demo_model (WindowSizeMsg 100 30)))) =
     \<lparr>vp_Width = 100, vp_Height = 27, YOffset = 7, vp_content = ''old'',
      HighPerformanceRendering = False\<rparr> \<and>
   ready (fst (steps demo_lib (newModel demo_lib [] ''[1, 2]'')
                 (map resize [(80, 24), (100, 30), (90, 28)]))) \<and>
   viewport (fst (steps demo_lib (newModel demo_lib [] ''[1, 2]'')
                    (map resize [(80, 24), (100, 30), (90, 28)]))) =
     \<lparr>vp_Width = 90, vp_Height = 25, YOffset = 0, vp_content = ''[1, 2].'',
      HighPerformanceRendering = False\<rparr>"
proof -
  let ?m0 = "fst (newModel demo_lib [] ''[1, 2]'')"
  let ?tr0 = "snd (newModel demo_lib [] ''[1, 2]'')"
  have n: "\<not> ready ?m0"
    by (simp add: demo_newModel)
  have r: "ready demo_model"
    by (simp add: demo_model_def)
  have v0: "viewport ?m0 = viewport_New 0 0" and r0: "result ?m0 = ''[1, 2].''"
    by (simp_all add: demo_newModel)
  from resize_initialises_once [of ?m0 demo_lib ?tr0 80 24 "(80, 24)" "[(100, 30), (90, 28)]"] n
  have a: "Update demo_lib ?tr0 ?m0 (WindowSizeMsg 80 24) =
        ((?m0\<lparr>viewport := \<lparr>vp_Width = 80, vp_Height = 21, YOffset = 0,
                          vp_content = ''[1, 2].'', HighPerformanceRendering = False\<rparr>,
            ready := True,
            textinput := (textinput ?m0)\<lparr>ti_Width := 80\<rparr>,
            help' := (help' ?m0)\<lparr>help_Width := 80\<rparr>\<rparr>, None), ?tr0)"
    and c: "ready (fst (steps demo_lib (?m0, ?tr0) (map resize [(80, 24), (100, 30), (90, 28)])))"
      "vp_content (viewport (fst (steps demo_lib (?m0, ?tr0) (map resize [(80, 24), (100, 30), (90, 28)])))) = ''[1, 2].''"
      "YOffset (viewport (fst (steps demo_lib (?m0, ?tr0) (map resize [(80, 24), (100, 30), (90, 28)])))) = 0"
      "vp_Width (viewport (fst (steps demo_lib (?m0, ?tr0) (map resize [(80, 24), (100, 30), (90, 28)])))) = 90"
      "vp_Height (viewport (fst (steps demo_lib (?m0, ?tr0) (map resize [(80, 24), (100, 30), (90, 28)])))) = 25"
    by (simp_all only: demo_margin r0 simp_thms last.simps butlast.simps list.simps fst_conv snd_conv if_False if_True)
       simp_all
  from resize_initialises_once [of demo_model demo_lib "[]" 100 30] r
  have b: "Update demo_lib [] demo_model (WindowSizeMsg 100 30) =
        ((demo_model\<lparr>viewport := (viewport demo_model)\<lparr>vp_Width := 100, vp_Height := 27\<rparr>,
            textinput := (textinput demo_model)\<lparr>ti_Width := 100\<rparr>,
            help' := (help' demo_model)\<lparr>help_Width := 100\<rparr>\<rparr>, None), [])"
    by (simp add: demo_margin)
  have h: "HighPerformanceRendering (viewport (fst (steps demo_lib (?m0, ?tr0) (map resize [(80, 24), (100, 30), (90, 28)])))) = False"
    by (simp add: demo_newModel resize_def Update_def viewport_New_def SetContent_def)
  show ?thesis
    using n r a b c h by (simp add: demo_model_def)
qed

subsection \<open>Focus\<close>

text \<open>
  C8. From the initial model (InputFocused), after \<open>n\<close> toggle-focus events (keys named
  \<^verbatim>\<open>tab\<close>) the focus is on the viewport exactly when \<open>n\<close> is odd, and the input field is
  focused and the submit binding enabled exactly when \<open>n\<close> is even. And for every
  model \<open>M\<close>, a toggle flips the focus; when it leaves InputFocused it blurs the input
  field and disables the submit binding, and when it enters InputFocused it focuses
  the input field and enables the submit binding.
\<close>

theorem focus_alternates:
  assumes "key_String lib k = ''tab''"
    and "newModel lib tr0 doc = (m0, tr1)"
    and "steps lib (m0, tr1) (replicate n (KeyMsg k)) = (m, tr)"
    and "Update lib T M (KeyMsg k) = ((M', c), T')"
  shows "focusViewport m = odd n
     \<and> ti_focus (textinput m) = even n
     \<and> Enabled (eval (keys m)) = even n
     \<and> focusViewport M' = (\<not> focusViewport M)
     \<and> (\<not> focusViewport M \<longrightarrow> \<not> ti_focus (textinput M') \<and> disabled (eval (keys M')))
     \<and> (focusViewport M \<longrightarrow> ti_focus (textinput M') \<and> \<not> disabled (eval (keys M')))"
proof -
  from assms(2) have m0: "m0 = fst (newModel lib tr0 doc)" by simp
  from assms(3) have m: "m = fst (steps lib (m0, tr1) (replicate n (KeyMsg k)))" by simp
  from toggles[OF assms(1), of m0 tr1 n] newModel_focus[of lib tr0 doc]
  have "focusViewport m = odd n" "ti_focus (textinput m) = even n"
    "Enabled (eval (keys m)) = even n"
    unfolding m[symmetric] m0[symmetric] Enabled_def
    by (cases "n = 0"; simp)+
  moreover from assms(4) Update_tab[OF assms(1), of T M]
  have "focusViewport M' = (\<not> focusViewport M)"
    "\<not> focusViewport M \<longrightarrow> \<not> ti_focus (textinput M') \<and> disabled (eval (keys M'))"
    "focusViewport M \<longrightarrow> ti_focus (textinput M') \<and> \<not> disabled (eval (keys M'))"
    by auto
  ultimately show ?thesis by blast
qed

theorem focus_alternates_witness:
  "key_String demo_lib ''tab'' = ''tab'' \<and>
   focusViewport (fst (steps demo_lib (newModel demo_lib [] ''[1, 2]'') (replicate 3 (KeyMsg ''tab'')))) \<and>
   \<not> ti_focus (textinput (fst (steps demo_lib (newModel demo_lib [] ''[1, 2]'') (replicate 3 (KeyMsg ''tab''))))) \<and>
   \<not> Enabled (eval (keys (fst (steps demo_lib (newModel demo_lib [] ''[1, 2]'') (replicate 3 (KeyMsg ''tab'')))))) \<and>
   \<not> focusViewport (fst (fst (Update demo_lib [] (demo_model\<lparr>focusViewport := True\<rparr>) (KeyMsg ''tab'')))) \<and>
   ti_focus (textinput (fst (fst (Update demo_lib [] (demo_model\<lparr>focusViewport := True\<rparr>) (KeyMsg ''tab'')))))"
proof -
  have k: "key_String demo_lib ''tab'' = ''tab''"
    by (simp add: demo_lib_def)
  obtain m0 tr1 where n: "newModel demo_lib [] ''[1, 2]'' = (m0, tr1)"
    by (cases "newModel demo_lib [] ''[1, 2]''") simp
  obtain m tr where s: "steps demo_lib (m0, tr1) (replicate 3 (KeyMsg ''tab'')) = (m, tr)"
    by (cases "steps demo_lib (m0, tr1) (replicate 3 (KeyMsg ''tab''))") simp
  obtain M' c T' where u:
    "Update demo_lib [] (demo_model\<lparr>focusViewport := True\<rparr>) (KeyMsg ''tab'') = ((M', c), T')"
    by (cases "Update demo_lib [] (demo_model\<lparr>focusViewport := True\<rparr>) (KeyMsg ''tab'')") auto
  from focus_alternates [OF k n s u] k show ?thesis
    by (simp add: n s u)
qed

subsection \<open>The session invariant\<close>

text \<open>
  C9. A session starts with \<^verbatim>\<open>newModel\<close> on the document, which makes the initial
  evaluation with the identity expression and keeps its output as the result. After
  any sequence of messages, whatever the libraries do, the model's \<^verbatim>\<open>content\<close> is still
  the document, and its \<^verbatim>\<open>result\<close> is the output of the last call in the trace of
  executor calls, that is, of the most recently completed evaluation. One more event
  of any kind leaves the document as it is. (The sequences include those that go on
  after a quit, which the runtime never delivers.)
\<close>

theorem session_invariant:
  assumes "newModel lib tr0 doc = (m0, tr1)"
    and "steps lib (m0, tr1) msgs = (m, tr)"
  shows "content m0 = doc
     \<and> tr1 = tr0 @ [\<lparr>call_content = doc, call_filter = ''.'', call_out = result m0\<rparr>]
     \<and> content m = doc
     \<and> tr \<noteq> []
     \<and> result m = call_out (last tr)
     \<and> content (fst (fst (Update lib tr m msg))) = doc"
proof -
  from assms(1) have "content m0 = doc"
    and "tr1 = tr0 @ [\<lparr>call_content = doc, call_filter = ''.'', call_out = result m0\<rparr>]"
    by (auto simp add: newModel_def jq_def Let_def split: prod.splits)
  moreover from steps_inv[where lib = lib and msgs = msgs, OF newModel_inv[where lib = lib and tr = tr0 and doc = doc]] assms
  have "content m = doc" "tr \<noteq> []" "result m = call_out (last tr)"
    by (simp_all add: session_inv_def)
  moreover from this have "content (fst (fst (Update lib tr m msg))) = doc"
    by (simp add: Update_content)
  ultimately show ?thesis by blast
qed

theorem session_invariant_witness:
  "content (fst (steps demo_lib (newModel demo_lib [] ''[1, 2]'') demo_msgs)) = ''[1, 2]'' \<and>
   result (fst (steps demo_lib (newModel demo_lib [] ''[1, 2]'') demo_msgs)) = ''[1, 2].a'' \<and>
   call_out (last (snd (steps demo_lib (newModel demo_lib [] ''[1, 2]'') demo_msgs))) = ''[1, 2].a''"
proof -
  have n: "newModel demo_lib [] ''[1, 2]'' =
      (fst (newModel demo_lib [] ''[1, 2]''), snd (newModel demo_lib [] ''[1, 2]''))"
    by simp
  have s: "steps demo_lib (fst (newModel demo_lib [] ''[1, 2]''), snd (newModel demo_lib [] ''[1, 2]'')) demo_msgs =
      (fst (steps demo_lib (newModel demo_lib [] ''[1, 2]'') demo_msgs),
       snd (steps demo_lib (newModel demo_lib [] ''[1, 2]'') demo_msgs))"
    by simp
  have r: "result (fst (steps demo_lib (newModel demo_lib [] ''[1, 2]'') demo_msgs)) = ''[1, 2].a''"
    by (simp add: demo_steps)
  from session_invariant [OF n s] r show ?thesis
    by simp
qed

subsection \<open>Quitting\<close>

text \<open>
  C6. When \<^verbatim>\<open>jq\<close> is installed, the document loads and the session ends by a quit with
  the final model \<open>m\<close>, the program writes to standard output the effective expression
  of \<open>m\<close> (the trimmed text of the input field, or \<^verbatim>\<open>.\<close> when that is empty) followed by
  a newline, and nothing else, and ends with status 0. With the text \<^verbatim>\<open>  .a  \<close> in the
  input field, what it writes is \<^verbatim>\<open>.a\<close> and the newline.
\<close>

theorem quit_prints_expression:
  assumes "exec_LookPath os ''jq'' = Inr p"
    and "getContent os args = (doc, None)"
    and "newModel lib [] doc = (m0, tr0)"
    and "Program_Run lib tr0 m0 events = Some (Inr m, tr)"
  shows "main lib os args events =
           Some ((if TrimSpace (Value (textinput m)) = [] then ''.''
                  else TrimSpace (Value (textinput m))) @ [CHR 0x0A], Success)
     \<and> (Value (textinput m) = ''  .a  '' \<longrightarrow>
          main lib os args events = Some (''.a'' @ [CHR 0x0A], Success))"
  using assms by (simp add: main_def jqFilter_def TrimSpace_demo)

theorem quit_prints_expression_witness:
  "exec_LookPath demo_os ''jq'' = Inr ''/usr/bin/jq'' \<and>
   getContent demo_os [''a.json'', ''b.json''] = (''[1, 2]'', None) \<and>
   Value (textinput demo_final) = ''  .a  '' \<and>
   main demo_lib demo_os [''a.json'', ''b.json''] demo_events = Some (''.a'' @ [CHR 0x0A], Success)"
proof -
  have l: "exec_LookPath demo_os ''jq'' = Inr ''/usr/bin/jq''"
    by (simp add: demo_os_def)
  have g: "getContent demo_os [''a.json'', ''b.json''] = (''[1, 2]'', None)"
    by (simp add: getContent_def readFile_def io_Copy_def demo_os_def)
  have n: "newModel demo_lib [] ''[1, 2]'' =
      (fst (newModel demo_lib [] ''[1, 2]''), snd (newModel demo_lib [] ''[1, 2]''))"
    by simp
  have v: "Value (textinput demo_final) = ''  .a  ''"
    by (simp add: demo_final_def Value_def)
  from quit_prints_expression [OF l g n demo_run] l g v show ?thesis
    by (simp add: TrimSpace_demo)
qed

end
